theory Spec2Isabelle
  imports Complex_Main "HOL-Library.Sublist" "HOL-Library.AList"
begin

unbundle bit_operations_syntax

section \<open>Errors\<close>

text \<open>
  Every exception the modelled Python can raise is a value.  Results of fallible
  computations are sums with the error on the left.
\<close>

datatype error =
    GeometryOverflowError string
  | ValueError
  | TypeError
  | ZeroDivisionError
  | IndexError
  | KeyError
  | StructError
  | OverflowError
  | RecursionError
  | FormatError string

section \<open>btypes: streams and primitive types\<close>

text \<open>
  A byte of a stream is either a plain byte value, or one of the four bytes of the
  IEEE-754 single precision encoding of a number, which is kept symbolic:
  \<open>FB x k\<close> is byte \<open>k\<close> of the encoding of \<open>x\<close>.
\<close>

datatype byte = B nat | FB real nat

datatype endianess = LITTLE_ENDIAN | BIG_ENDIAN

record stream =
  data :: "byte list"
  pos :: nat
  endian :: endianess

text \<open>\<open>stream.write\<close>: overwrite at the current position, extending the data as needed.\<close>

definition stream_write :: "stream \<Rightarrow> byte list \<Rightarrow> stream" where
  "stream_write s bs =
     (let d = data s @ replicate (pos s - length (data s)) (B 0)
      in s\<lparr>data := take (pos s) d @ bs @ drop (pos s + length bs) d,
           pos := pos s + length bs\<rparr>)"

definition stream_tell :: "stream \<Rightarrow> nat" where
  "stream_tell s = pos s"

definition stream_seek :: "stream \<Rightarrow> nat \<Rightarrow> stream" where
  "stream_seek s p = s\<lparr>pos := p\<rparr>"

text \<open>\<open>stream.read(n)\<close>: at most \<open>n\<close> bytes from the current position.\<close>

definition stream_read :: "stream \<Rightarrow> nat \<Rightarrow> byte list \<times> stream" where
  "stream_read s n =
     (let bs = take n (drop (pos s) (data s))
      in (bs, s\<lparr>pos := pos s + length bs\<rparr>))"

text \<open>Unsigned integers of \<open>n\<close> bytes, least significant byte first.\<close>

fun le_bytes :: "nat \<Rightarrow> nat \<Rightarrow> nat list" where
  "le_bytes 0 v = []"
| "le_bytes (Suc n) v = (v mod 256) # le_bytes n (v div 256)"

fun le_value :: "nat list \<Rightarrow> nat" where
  "le_value [] = 0"
| "le_value (b # bs) = b + 256 * le_value bs"

definition order_bytes :: "endianess \<Rightarrow> 'a list \<Rightarrow> 'a list" where
  "order_bytes e bs = (case e of LITTLE_ENDIAN \<Rightarrow> bs | BIG_ENDIAN \<Rightarrow> rev bs)"

text \<open>
  \<open>BasicType.pack\<close> for the unsigned formats: \<open>struct.pack\<close> raises on a value out
  of range, before anything is written.  A failed stream operation returns the error
  together with the stream as it is at that moment.
\<close>

type_synonym result = "(error \<times> stream) + stream"

definition uint_bytes :: "endianess \<Rightarrow> nat \<Rightarrow> int \<Rightarrow> byte list" where
  "uint_bytes e n v = map B (order_bytes e (le_bytes n (nat v)))"

definition uint_pack :: "nat \<Rightarrow> stream \<Rightarrow> int \<Rightarrow> result" where
  "uint_pack n s v =
     (if 0 \<le> v \<and> v < 2 ^ (8 * n)
      then Inr (stream_write s (uint_bytes (endian s) n v))
      else Inl (StructError, s))"

definition uint8_pack :: "stream \<Rightarrow> int \<Rightarrow> result" where
  "uint8_pack = uint_pack 1"

definition uint16_pack :: "stream \<Rightarrow> int \<Rightarrow> result" where
  "uint16_pack = uint_pack 2"

definition uint32_pack :: "stream \<Rightarrow> int \<Rightarrow> result" where
  "uint32_pack = uint_pack 4"

text \<open>
  \<open>float32.pack\<close>: \<open>struct.pack\<close> raises OverflowError on a number whose magnitude
  rounds beyond the largest single precision value.
\<close>

definition float32_bytes :: "endianess \<Rightarrow> real \<Rightarrow> byte list" where
  "float32_bytes e x = order_bytes e (map (FB x) [0, 1, 2, 3])"

definition float32_pack :: "stream \<Rightarrow> real \<Rightarrow> result" where
  "float32_pack s x =
     (if \<bar>x\<bar> < 2 ^ 128 - 2 ^ 103
      then Inr (stream_write s (float32_bytes (endian s) x))
      else Inl (OverflowError, s))"

fun plain_bytes :: "byte list \<Rightarrow> nat list option" where
  "plain_bytes [] = Some []"
| "plain_bytes (B b # bs) = map_option ((#) b) (plain_bytes bs)"
| "plain_bytes (FB x k # bs) = None"

text \<open>
  \<open>BasicType.unpack\<close> for the unsigned formats: \<open>struct.unpack\<close> raises when fewer
  than \<open>size\<close> bytes could be read.
\<close>

definition uint_unpack :: "nat \<Rightarrow> stream \<Rightarrow> error + (int \<times> stream)" where
  "uint_unpack n s =
     (case stream_read s n of (bs, s') \<Rightarrow>
        if length bs \<noteq> n then Inl StructError
        else (case plain_bytes bs of
                None \<Rightarrow> Inl StructError
              | Some ns \<Rightarrow> Inr (int (le_value (order_bytes (endian s) ns)), s')))"

definition uint8_unpack :: "stream \<Rightarrow> error + (int \<times> stream)" where
  "uint8_unpack = uint_unpack 1"

definition uint16_unpack :: "stream \<Rightarrow> error + (int \<times> stream)" where
  "uint16_unpack = uint_unpack 2"

definition uint32_unpack :: "stream \<Rightarrow> error + (int \<times> stream)" where
  "uint32_unpack = uint_unpack 4"

text \<open>\<open>align_length\<close> and \<open>align\<close> (with a one-byte padding, as its callers here use it).\<close>

definition align_length :: "nat \<Rightarrow> nat \<Rightarrow> nat" where
  "align_length len boundary = ((len + boundary - 1) div boundary) * boundary"

definition align :: "stream \<Rightarrow> nat \<Rightarrow> byte \<Rightarrow> stream" where
  "align s boundary padding =
     (if stream_tell s mod boundary = 0 then s
      else stream_write s (replicate (boundary - stream_tell s mod boundary) padding))"

subsection \<open>Struct: the size of a structure is the sum of the sizes of its fields\<close>

datatype ftype = Uint8 | Uint16 | Uint32 | Float32 | StructT "ftype list"

fun sizeof :: "ftype \<Rightarrow> nat" where
  "sizeof Uint8 = 1"
| "sizeof Uint16 = 2"
| "sizeof Uint32 = 4"
| "sizeof Float32 = 4"
| "sizeof (StructT fs) = sum_list (map sizeof fs)"

section \<open>kcl: structures\<close>

text \<open>\<open>class Vector(Struct)\<close>: fields \<open>x\<close>, \<open>y\<close>, \<open>z\<close> of type \<open>float32\<close>.\<close>

definition Vector_struct :: ftype where
  "Vector_struct = StructT [Float32, Float32, Float32]"

text \<open>
  \<open>class Header(Struct)\<close>: \<open>vertex_offset\<close>, \<open>normal_offset\<close>, \<open>face_offset\<close>,
  \<open>octree_offset\<close> (uint32), \<open>unknown0\<close> (float32), \<open>base\<close> (Vector), \<open>x_mask\<close>,
  \<open>y_mask\<close>, \<open>z_mask\<close>, \<open>coordinate_shift\<close>, \<open>y_shift\<close>, \<open>z_shift\<close> (uint32).
\<close>

definition Header_struct :: ftype where
  "Header_struct = StructT [Uint32, Uint32, Uint32, Uint32, Float32, Vector_struct,
     Uint32, Uint32, Uint32, Uint32, Uint32, Uint32]"

text \<open>
  \<open>class Face(Struct)\<close>: \<open>length\<close> (float32), \<open>p_index\<close>, \<open>n_index\<close>, \<open>a_index\<close>,
  \<open>b_index\<close>, \<open>c_index\<close>, \<open>group_index\<close> (uint16).
\<close>

definition Face_struct :: ftype where
  "Face_struct = StructT [Float32, Uint16, Uint16, Uint16, Uint16, Uint16, Uint16]"

definition Header_sizeof :: nat where
  "Header_sizeof = sizeof Header_struct"

definition Face_sizeof :: nat where
  "Face_sizeof = sizeof Face_struct"


section \<open>kcl: geometry, welder and octree\<close>

subsection \<open>Sequencing of fallible computations\<close>

definition ebind :: "error + 'a \<Rightarrow> ('a \<Rightarrow> error + 'b) \<Rightarrow> error + 'b" where
  "ebind m f = (case m of Inl e \<Rightarrow> Inl e | Inr a \<Rightarrow> f a)"

text \<open>The results of a list of computations, in order, up to the first error.\<close>

fun collect :: "(error + 'a) list \<Rightarrow> error + 'a list" where
  "collect [] = Inr []"
| "collect (r # rs) =
     (case r of Inl e \<Rightarrow> Inl e
      | Inr a \<Rightarrow> (case collect rs of Inl e \<Rightarrow> Inl e | Inr as \<Rightarrow> Inr (a # as)))"

text \<open>Python list indexing: a negative index counts from the end.\<close>

definition py_get :: "'a list \<Rightarrow> int \<Rightarrow> error + 'a" where
  "py_get xs i =
     (let len = int (length xs); j = (if i < 0 then len + i else i)
      in if 0 \<le> j \<and> j < len then Inr (xs ! nat j) else Inl IndexError)"

text \<open>Python's \<open>int(x)\<close> on a float: truncation towards zero.\<close>

definition py_int :: "real \<Rightarrow> int" where
  "py_int r = (if r < 0 then - \<lfloor>- r\<rfloor> else \<lfloor>r\<rfloor>)"

subsection \<open>Vector\<close>

text \<open>
  Coordinates are real numbers: the finite floating point values of the program,
  with exact arithmetic.  The fields \<open>x\<close>, \<open>y\<close>, \<open>z\<close> are \<open>vx\<close>, \<open>vy\<close>, \<open>vz\<close>.
\<close>

datatype Vector = Vector (vx: real) (vy: real) (vz: real)

definition vadd :: "Vector \<Rightarrow> Vector \<Rightarrow> Vector" where
  "vadd a b = Vector (vx a + vx b) (vy a + vy b) (vz a + vz b)"

definition vsub :: "Vector \<Rightarrow> Vector \<Rightarrow> Vector" where
  "vsub a b = Vector (vx a - vx b) (vy a - vy b) (vz a - vz b)"

definition rmul :: "real \<Rightarrow> Vector \<Rightarrow> Vector" where
  "rmul scalar a = Vector (scalar * vx a) (scalar * vy a) (scalar * vz a)"

definition truediv :: "Vector \<Rightarrow> real \<Rightarrow> error + Vector" where
  "truediv a scalar =
     (if scalar = 0 then Inl ZeroDivisionError
      else Inr (Vector (vx a / scalar) (vy a / scalar) (vz a / scalar)))"

definition norm_square :: "Vector \<Rightarrow> real" where
  "norm_square a = vx a * vx a + vy a * vy a + vz a * vz a"

definition vnorm :: "Vector \<Rightarrow> real" where
  "vnorm a = sqrt (norm_square a)"

definition unit :: "Vector \<Rightarrow> error + Vector" where
  "unit a = truediv a (vnorm a)"

definition dot :: "Vector \<Rightarrow> Vector \<Rightarrow> real" where
  "dot a b = vx a * vx b + vy a * vy b + vz a * vz b"

definition cross :: "Vector \<Rightarrow> Vector \<Rightarrow> Vector" where
  "cross a b = Vector (vy a * vz b - vz a * vy b) (vz a * vx b - vx a * vz b)
     (vx a * vy b - vy a * vx b)"

definition Vector_pack :: "stream \<Rightarrow> Vector \<Rightarrow> result" where
  "Vector_pack s a =
     (case float32_pack s (vx a) of Inl e \<Rightarrow> Inl e
      | Inr s1 \<Rightarrow> (case float32_pack s1 (vy a) of Inl e \<Rightarrow> Inl e
      | Inr s2 \<Rightarrow> float32_pack s2 (vz a)))"

subsection \<open>Triangle\<close>

record triangle =
  tri_u :: Vector
  tri_v :: Vector
  tri_w :: Vector
  tri_n :: Vector
  group_index :: int

definition Triangle :: "Vector \<Rightarrow> Vector \<Rightarrow> Vector \<Rightarrow> int \<Rightarrow> error + triangle" where
  "Triangle u v w g =
     ebind (unit (cross (vsub v u) (vsub w u)))
       (\<lambda>n. Inr \<lparr>tri_u = u, tri_v = v, tri_w = w, tri_n = n, group_index = g\<rparr>)"

subsection \<open>Vertex welder\<close>

record welder =
  threshold :: real
  cell_width :: real
  buckets :: "nat list list"
  vertices :: "Vector list"

definition magic_x :: int where "magic_x = 0x8DA6B343"
definition magic_y :: int where "magic_y = 0xD8163841"
definition magic_z :: int where "magic_z = 0x61B40079"

definition VertexWelder :: "real \<Rightarrow> nat \<Rightarrow> welder" where
  "VertexWelder t bucket_count =
     \<lparr>threshold = t, cell_width = 16 * t, buckets = replicate bucket_count [], vertices = []\<rparr>"

definition calculate_hash :: "welder \<Rightarrow> int \<Rightarrow> int \<Rightarrow> int \<Rightarrow> error + nat" where
  "calculate_hash w ix iy iz =
     (if buckets w = [] then Inl ZeroDivisionError
      else Inr (nat ((ix * magic_x + iy * magic_y + iz * magic_z) mod int (length (buckets w)))))"

definition close_to :: "welder \<Rightarrow> Vector \<Rightarrow> Vector \<Rightarrow> bool" where
  "close_to w vertex other \<longleftrightarrow>
     \<bar>vx vertex - vx other\<bar> < threshold w \<and>
     \<bar>vy vertex - vy other\<bar> < threshold w \<and>
     \<bar>vz vertex - vz other\<bar> < threshold w"

text \<open>The innermost loop of \<open>add\<close>: the first index of the bucket whose vertex is close.\<close>

fun scan_bucket :: "welder \<Rightarrow> Vector \<Rightarrow> nat list \<Rightarrow> error + nat option" where
  "scan_bucket w vertex [] = Inr None"
| "scan_bucket w vertex (index # bucket) =
     (if length (vertices w) \<le> index then Inl IndexError
      else if close_to w vertex (vertices w ! index) then Inr (Some index)
      else scan_bucket w vertex bucket)"

text \<open>The three nested loops of \<open>add\<close> over the cells, in the order they are visited.\<close>

fun scan_cells :: "welder \<Rightarrow> Vector \<Rightarrow> (int \<times> int \<times> int) list \<Rightarrow> error + nat option" where
  "scan_cells w vertex [] = Inr None"
| "scan_cells w vertex ((ix, iy, iz) # cells) =
     (case calculate_hash w ix iy iz of Inl e \<Rightarrow> Inl e
      | Inr h \<Rightarrow>
         (case scan_bucket w vertex (buckets w ! h) of Inl e \<Rightarrow> Inl e
          | Inr (Some index) \<Rightarrow> Inr (Some index)
          | Inr None \<Rightarrow> scan_cells w vertex cells))"

definition add :: "welder \<Rightarrow> Vector \<Rightarrow> error + (nat \<times> welder)" where
  "add w vertex =
     (if cell_width w = 0 then Inl ZeroDivisionError
      else
        (let min_ix = py_int ((vx vertex - threshold w) / cell_width w);
             min_iy = py_int ((vy vertex - threshold w) / cell_width w);
             min_iz = py_int ((vz vertex - threshold w) / cell_width w);
             max_ix = py_int ((vx vertex + threshold w) / cell_width w);
             max_iy = py_int ((vy vertex + threshold w) / cell_width w);
             max_iz = py_int ((vz vertex + threshold w) / cell_width w)
         in (case scan_cells w vertex
                [(ix, iy, iz). ix \<leftarrow> [min_ix..max_ix], iy \<leftarrow> [min_iy..max_iy],
                   iz \<leftarrow> [min_iz..max_iz]] of
              Inl e \<Rightarrow> Inl e
            | Inr (Some index) \<Rightarrow> Inr (index, w)
            | Inr None \<Rightarrow>
                (let vs = vertices w @ [vertex];
                     ix = py_int (vx vertex / cell_width w);
                     iy = py_int (vy vertex / cell_width w);
                     iz = py_int (vz vertex / cell_width w)
                 in (case calculate_hash w ix iy iz of
                       Inl e \<Rightarrow> Inl e
                     | Inr h \<Rightarrow>
                         Inr (length vs - 1,
                              w\<lparr>vertices := vs,
                                buckets := (buckets w)[h := (buckets w ! h) @ [length vs - 1]]\<rparr>))))))"

subsection \<open>Triangle and cube overlap\<close>

definition edge_axis_test :: "real \<Rightarrow> real \<Rightarrow> real \<Rightarrow> real \<Rightarrow> real \<Rightarrow> real \<Rightarrow> real \<Rightarrow> bool" where
  "edge_axis_test half_width a1 a2 b1 b2 c1 c2 =
     (let p = a1 * b1 + a2 * b2;
          q = a1 * c1 + a2 * c2;
          r = half_width * (\<bar>a1\<bar> + \<bar>a2\<bar>)
      in (p < - r \<and> q < - r) \<or> (p > r \<and> q > r))"

definition edge_test ::
  "real \<Rightarrow> real \<Rightarrow> real \<Rightarrow> real \<Rightarrow> real \<Rightarrow> real \<Rightarrow> real \<Rightarrow> real \<Rightarrow> real \<Rightarrow> real \<Rightarrow> bool" where
  "edge_test half_width v0_x v0_y v0_z v1_x v1_y v1_z v2_x v2_y v2_z =
     (let e_x = v1_x - v0_x;
          e_y = v1_y - v0_y;
          e_z = v1_z - v0_z
      in edge_axis_test half_width e_z (- e_y) v0_y v0_z v2_y v2_z \<or>
         edge_axis_test half_width (- e_z) e_x v0_x v0_z v2_x v2_z \<or>
         edge_axis_test half_width e_y (- e_x) v0_x v0_y v2_x v2_y)"

definition tribox_overlap :: "triangle \<Rightarrow> Vector \<Rightarrow> real \<Rightarrow> bool" where
  "tribox_overlap t center half_width =
     (let u_x = vx (tri_u t) - vx center;
          u_y = vy (tri_u t) - vy center;
          u_z = vz (tri_u t) - vz center;
          v_x = vx (tri_v t) - vx center;
          v_y = vy (tri_v t) - vy center;
          v_z = vz (tri_v t) - vz center;
          w_x = vx (tri_w t) - vx center;
          w_y = vy (tri_w t) - vy center;
          w_z = vz (tri_w t) - vz center
      in if (u_x < - half_width \<and> v_x < - half_width \<and> w_x < - half_width) \<or>
            (u_x > half_width \<and> v_x > half_width \<and> w_x > half_width) \<or>
            (u_y < - half_width \<and> v_y < - half_width \<and> w_y < - half_width) \<or>
            (u_y > half_width \<and> v_y > half_width \<and> w_y > half_width) \<or>
            (u_z < - half_width \<and> v_z < - half_width \<and> w_z < - half_width) \<or>
            (u_z > half_width \<and> v_z > half_width \<and> w_z > half_width)
         then False
         else
           let n = tri_n t;
               d = vx n * u_x + vy n * u_y + vz n * u_z;
               r = half_width * (\<bar>vx n\<bar> + \<bar>vy n\<bar> + \<bar>vz n\<bar>)
           in if d < - r \<or> d > r then False
              else if edge_test half_width u_x u_y u_z v_x v_y v_z w_x w_y w_z \<or>
                      edge_test half_width v_x v_y v_z w_x w_y w_z u_x u_y u_z \<or>
                      edge_test half_width w_x w_y w_z u_x u_y u_z v_x v_y v_z
                   then False
                   else True)"

subsection \<open>Octree\<close>

datatype Node = Leaf (indices: "nat list") | Branch (node_children: "Node list")

fun is_leaf :: "Node \<Rightarrow> bool" where
  "is_leaf (Leaf idx) = True"
| "is_leaf (Branch cs) = False"

text \<open>\<open>Octree.Node.__getitem__\<close>: a leaf is its own child at every octant.\<close>

fun node_getitem :: "Node \<Rightarrow> int \<times> int \<times> int \<Rightarrow> error + Node" where
  "node_getitem (Leaf idx) key = Inr (Leaf idx)"
| "node_getitem (Branch cs) (k0, k1, k2) = py_get cs (k0 + 2 * (k1 + 2 * k2))"

record octree =
  triangles :: "triangle list"
  max_triangles :: int
  min_width :: int
  base :: Vector
  width_x :: int
  width_y :: int
  width_z :: int
  base_width :: int
  nx :: int
  ny :: int
  nz :: int
  children :: "Node list"

text \<open>\<open>Octree.__getitem__\<close>\<close>

definition octree_getitem :: "octree \<Rightarrow> int \<times> int \<times> int \<Rightarrow> error + Node" where
  "octree_getitem t key =
     (case key of (k0, k1, k2) \<Rightarrow> py_get (children t) (k0 + nx t * (k1 + ny t * k2)))"

text \<open>The eight octants in the order \<open>for k in range(2) for j in range(2) for i in range(2)\<close>.\<close>

definition octants :: "(int \<times> int \<times> int) list" where
  "octants = [(i, j, k). k \<leftarrow> [0, 1], j \<leftarrow> [0, 1], i \<leftarrow> [0, 1]]"

definition corner :: "Vector \<Rightarrow> real \<Rightarrow> int \<times> int \<times> int \<Rightarrow> Vector" where
  "corner b width key =
     (case key of (i, j, k) \<Rightarrow>
        vadd b (rmul width (Vector (real_of_int i) (real_of_int j) (real_of_int k))))"

definition overlapping :: "triangle list \<Rightarrow> Vector \<Rightarrow> real \<Rightarrow> nat list \<Rightarrow> nat list" where
  "overlapping ts center half_width idx =
     filter (\<lambda>i. tribox_overlap (ts ! i) center half_width) idx"

text \<open>
  \<open>Octree.node\<close>.  The first argument is the number of nested calls the interpreter
  still allows: Python raises RecursionError when the recursion is deeper.
\<close>

fun node :: "nat \<Rightarrow> triangle list \<Rightarrow> int \<Rightarrow> int \<Rightarrow> Vector \<Rightarrow> real \<Rightarrow> nat list \<Rightarrow> error + Node" where
  "node 0 ts maxt minw b width idx = Inl RecursionError"
| "node (Suc depth) ts maxt minw b width idx =
     (let half_width = width / 2;
          center = vadd b (Vector half_width half_width half_width)
      in if \<exists>i \<in> set idx. length ts \<le> i then Inl IndexError
         else
           let idx' = overlapping ts center half_width idx
           in if int (length idx') > maxt \<and> half_width \<ge> real_of_int minw
              then (case collect (map (\<lambda>key. node depth ts maxt minw (corner b half_width key)
                                        half_width idx') octants) of
                      Inl e \<Rightarrow> Inl e
                    | Inr cs \<Rightarrow> Inr (Branch cs))
              else Inr (Leaf idx'))"

text \<open>The least and the greatest coordinate of the triangles, on one axis.\<close>

definition coords :: "(Vector \<Rightarrow> real) \<Rightarrow> triangle list \<Rightarrow> real list" where
  "coords axis ts = concat (map (\<lambda>t. [axis (tri_u t), axis (tri_v t), axis (tri_w t)]) ts)"

definition least :: "real list \<Rightarrow> real" where
  "least xs = fold min (tl xs) (hd xs)"

definition greatest :: "real list \<Rightarrow> real" where
  "greatest xs = fold max (tl xs) (hd xs)"

text \<open>
  The exponent \<open>int(ceil(log(max(extent, min_width), 2)))\<close>; \<open>math.log\<close> raises
  ValueError unless its argument is positive.
\<close>

definition width_exponent :: "real \<Rightarrow> int \<Rightarrow> error + int" where
  "width_exponent extent minw =
     (let m = max extent (real_of_int minw)
      in if m \<le> 0 then Inl ValueError else Inr \<lceil>log 2 m\<rceil>)"

definition branch_count :: "Node list \<Rightarrow> nat" where
  "branch_count cs = length (filter (\<lambda>n. \<not> is_leaf n) cs)"

text \<open>The condition of the flattening loop.\<close>

definition flatten_cond :: "octree \<Rightarrow> error + bool" where
  "flatten_cond t =
     (if nx t * ny t * nz t = 0 then Inl ZeroDivisionError
      else Inr (real (branch_count (children t)) / real_of_int (nx t * ny t * nz t) \<ge> 0.875))"

text \<open>The body of the flattening loop.\<close>

definition flatten_step :: "octree \<Rightarrow> error + octree" where
  "flatten_step t =
     (case collect
             [ebind (octree_getitem t (i div 2, j div 2, k div 2))
                (\<lambda>n. node_getitem n (i mod 2, j mod 2, k mod 2)).
              k \<leftarrow> [0 .. 2 * nz t - 1], j \<leftarrow> [0 .. 2 * ny t - 1], i \<leftarrow> [0 .. 2 * nx t - 1]] of
        Inl e \<Rightarrow> Inl e
      | Inr cs \<Rightarrow>
          Inr (t\<lparr>children := cs, base_width := base_width t div 2,
                 nx := nx t * 2, ny := ny t * 2, nz := nz t * 2\<rparr>))"

fun height :: "Node \<Rightarrow> nat" where
  "height (Leaf idx) = 0"
| "height (Branch cs) = Suc (fold max (map height cs) 0)"

definition forest_height :: "Node list \<Rightarrow> nat" where
  "forest_height cs = fold max (map height cs) 0"

function flatten_loop :: "octree \<Rightarrow> error + octree" where
  "flatten_loop t =
     (case flatten_cond t of
        Inl e \<Rightarrow> Inl e
      | Inr False \<Rightarrow> Inr t
      | Inr True \<Rightarrow>
          (case flatten_step t of Inl e \<Rightarrow> Inl e | Inr t' \<Rightarrow> flatten_loop t'))"
  by pat_completeness auto
termination
proof -
  have main: "forest_height (children t') < forest_height (children t)"
    if cond: "flatten_cond t = Inr True" and step: "flatten_step t = Inr t'" for t t'
  proof -
  have fold_max_ge: "\<And>(xs :: nat list) a x. x \<in> set xs \<Longrightarrow> x \<le> fold max xs a"
  proof -
    fix xs :: "nat list" and a x
    have mono: "\<And>ys (a :: nat). a \<le> fold max ys a"
    proof -
      fix ys :: "nat list" and a :: nat
      show "a \<le> fold max ys a"
        by (induction ys arbitrary: a) (auto intro: order_trans [OF max.cobounded2])
    qed
    show "x \<in> set xs \<Longrightarrow> x \<le> fold max xs a"
    proof (induction xs arbitrary: a)
      case Nil
      then show ?case by simp
    next
      case (Cons y ys)
      show ?case
      proof (cases "x = y")
        case True
        have "max y a \<le> fold max ys (max y a)" by (rule mono)
        then show ?thesis using True by simp
      next
        case False
        with Cons show ?thesis by simp
      qed
    qed
  qed
  have fold_max_less: "\<And>(xs :: nat list) b. \<forall>x \<in> set xs. x < b \<Longrightarrow> 0 < b \<Longrightarrow> fold max xs 0 < b"
  proof -
    fix xs :: "nat list" and b :: nat
    have gen: "\<And>a. \<forall>x \<in> set xs. x < b \<Longrightarrow> a < b \<Longrightarrow> fold max xs a < b"
      by (induction xs) auto
    show "\<forall>x \<in> set xs. x < b \<Longrightarrow> 0 < b \<Longrightarrow> fold max xs 0 < b"
      using gen by blast
  qed
  have collect_mem: "\<And>(rs :: (error + Node) list) xs x.
      collect rs = Inr xs \<Longrightarrow> x \<in> set xs \<Longrightarrow> Inr x \<in> set rs"
  proof -
    fix rs :: "(error + Node) list" and xs x
    show "collect rs = Inr xs \<Longrightarrow> x \<in> set xs \<Longrightarrow> Inr x \<in> set rs"
      by (induction rs arbitrary: xs) (auto split: sum.splits)
  qed
  have py_get_mem: "\<And>(ys :: Node list) i y. py_get ys i = Inr y \<Longrightarrow> y \<in> set ys"
    by (auto simp: py_get_def Let_def split: if_splits)
  have branch: "\<exists>n \<in> set (children t). \<not> is_leaf n"
  proof (rule ccontr)
    assume "\<not> (\<exists>n \<in> set (children t). \<not> is_leaf n)"
    then have "branch_count (children t) = 0"
      by (simp add: branch_count_def filter_empty_conv)
    with cond show False
      by (simp add: flatten_cond_def split: if_splits)
  qed
  then obtain n0 where n0: "n0 \<in> set (children t)" "\<not> is_leaf n0" by blast
  have "height n0 \<le> forest_height (children t)"
    unfolding forest_height_def using n0(1) by (intro fold_max_ge) simp
  moreover have "0 < height n0" using n0(2) by (cases n0) auto
  ultimately have pos: "0 < forest_height (children t)" by simp
  have small: "\<forall>h \<in> set (map height (children t')). h < forest_height (children t)"
  proof
    fix h assume "h \<in> set (map height (children t'))"
    then obtain m where m: "m \<in> set (children t')" "h = height m" by auto
    from step obtain cs where
      cs: "collect
             [ebind (octree_getitem t (i div 2, j div 2, k div 2))
                (\<lambda>n. node_getitem n (i mod 2, j mod 2, k mod 2)).
              k \<leftarrow> [0 .. 2 * nz t - 1], j \<leftarrow> [0 .. 2 * ny t - 1], i \<leftarrow> [0 .. 2 * nx t - 1]]
           = Inr cs" and t': "children t' = cs"
      by (auto simp: flatten_step_def split: sum.splits)
    from collect_mem [OF cs] m(1) t' obtain i j k where
      "ebind (octree_getitem t (i div 2, j div 2, k div 2))
          (\<lambda>n. node_getitem n (i mod 2, j mod 2, k mod 2)) = Inr m"
      by fastforce
    then obtain p where p: "octree_getitem t (i div 2, j div 2, k div 2) = Inr p"
      and pm: "node_getitem p (i mod 2, j mod 2, k mod 2) = Inr m"
      by (auto simp: ebind_def split: sum.splits)
    from p have pin: "p \<in> set (children t)"
      by (auto simp: octree_getitem_def dest: py_get_mem)
    have hp: "height p \<le> forest_height (children t)"
      unfolding forest_height_def using pin by (intro fold_max_ge) simp
    show "h < forest_height (children t)"
    proof (cases p)
      case (Leaf idx)
      with pm have "m = Leaf idx" by simp
      with m(2) pos show ?thesis by simp
    next
      case (Branch ps)
      with pm have "m \<in> set ps" by (auto dest: py_get_mem)
      then have "height m \<le> fold max (map height ps) 0"
        by (intro fold_max_ge) simp
      with Branch hp m(2) show ?thesis by simp
    qed
  qed
  show "forest_height (children t') < forest_height (children t)"
    unfolding forest_height_def [of "children t'"]
    using small pos by (intro fold_max_less) auto
  qed
  show ?thesis
    by (relation "measure (\<lambda>t. forest_height (children t))") (auto dest: main)
qed

text \<open>The top level nodes, \<open>for k in range(nz) for j in range(ny) for i in range(nx)\<close>.\<close>

definition top_nodes ::
  "nat \<Rightarrow> triangle list \<Rightarrow> int \<Rightarrow> int \<Rightarrow> Vector \<Rightarrow> int \<Rightarrow> int \<Rightarrow> int \<Rightarrow> int \<Rightarrow> error + Node list" where
  "top_nodes depth ts maxt minw b bw n_x n_y n_z =
     collect [node depth ts maxt minw (corner b (real_of_int bw) (i, j, k)) (real_of_int bw)
                [0 ..< length ts].
              k \<leftarrow> [0 .. n_z - 1], j \<leftarrow> [0 .. n_y - 1], i \<leftarrow> [0 .. n_x - 1]]"

text \<open>
  \<open>Octree.__init__\<close> up to its \<open>while\<close> loop.  A width \<open>2**e\<close> with a negative \<open>e\<close> is
  a float, and so are then \<open>base_width\<close> and \<open>nz\<close>: \<open>range(self.nz)\<close> raises TypeError.
\<close>

definition Octree_grid :: "nat \<Rightarrow> triangle list \<Rightarrow> int \<Rightarrow> int \<Rightarrow> error + octree" where
  "Octree_grid depth ts maxt minw =
     (if ts = [] then Inl ValueError
      else
        (let min_x = least (coords vx ts);
             min_y = least (coords vy ts);
             min_z = least (coords vz ts);
             max_x = greatest (coords vx ts);
             max_y = greatest (coords vy ts);
             max_z = greatest (coords vz ts);
             b = Vector min_x min_y min_z
         in ebind (width_exponent (max_x - min_x) minw) (\<lambda>ex.
            ebind (width_exponent (max_y - min_y) minw) (\<lambda>ey.
            ebind (width_exponent (max_z - min_z) minw) (\<lambda>ez.
              if ex < 0 \<or> ey < 0 \<or> ez < 0 then Inl TypeError
              else
                (let wx = 2 ^ nat ex;
                     wy = 2 ^ nat ey;
                     wz = 2 ^ nat ez;
                     bw = min wx (min wy wz);
                     n_x = wx div bw;
                     n_y = wy div bw;
                     n_z = wz div bw
                 in ebind (top_nodes depth ts maxt minw b bw n_x n_y n_z)
                      (\<lambda>cs. Inr
                         \<lparr>triangles = ts, max_triangles = maxt, min_width = minw, base = b,
                          width_x = wx, width_y = wy, width_z = wz, base_width = bw,
                          nx = n_x, ny = n_y, nz = n_z, children = cs\<rparr>)))))))"

text \<open>\<open>Octree.__init__\<close>\<close>

definition Octree :: "nat \<Rightarrow> triangle list \<Rightarrow> int \<Rightarrow> int \<Rightarrow> error + octree" where
  "Octree depth ts maxt minw = ebind (Octree_grid depth ts maxt minw) flatten_loop"

subsection \<open>Octree.pack\<close>

text \<open>
  \<open>list_offsets\<close> is an ordered dictionary: an association list in insertion order,
  where a new key goes to the end (\<open>AList.update\<close>).

  One pass of \<open>for node in branches[i].children\<close> of the first loop: the state is the
  branches appended to \<open>branches\<close> in this pass, \<open>list_offsets\<close> and \<open>free_list_offset\<close>.
\<close>

fun scan_children ::
  "Node list \<Rightarrow> Node list list \<times> (nat list \<times> int) list \<times> int \<Rightarrow>
     Node list list \<times> (nat list \<times> int) list \<times> int" where
  "scan_children [] st = st"
| "scan_children (Leaf idx # ns) (appended, list_offsets, free) =
     (if idx = [] then scan_children ns (appended, list_offsets, free)
      else if map_of list_offsets idx \<noteq> None then scan_children ns (appended, list_offsets, free)
      else scan_children ns
             (appended, AList.update idx free list_offsets, free + 2 * (int (length idx) + 1)))"
| "scan_children (Branch cs # ns) (appended, list_offsets, free) =
     scan_children ns (appended @ [cs], list_offsets, free)"

fun tsize :: "Node \<Rightarrow> nat" where
  "tsize (Leaf idx) = 1"
| "tsize (Branch cs) = Suc (sum_list (map tsize cs))"

text \<open>
  The first loop, \<open>while i < len(branches)\<close>.  Every branch is given by its list of
  children; \<open>visited\<close> holds \<open>branches[:i]\<close> and \<open>queue\<close> holds \<open>branches[i:]\<close>.
\<close>

function walk ::
  "Node list list \<Rightarrow> Node list list \<Rightarrow> (nat list \<times> int) list \<Rightarrow> int \<Rightarrow>
     Node list list \<times> (nat list \<times> int) list \<times> int" where
  "walk visited [] list_offsets free = (visited, list_offsets, free)"
| "walk visited (cs # queue) list_offsets free =
     (case scan_children cs ([], list_offsets, free) of
        (appended, list_offsets', free') \<Rightarrow>
          walk (visited @ [cs]) (queue @ appended) list_offsets' free')"
  by pat_completeness auto
termination
proof -
  let ?w = "\<lambda>q. sum_list (map (\<lambda>cs. Suc (sum_list (map tsize cs))) q)"
  have scan: "sum_list (map (\<lambda>cs. Suc (sum_list (map tsize cs))) (fst (scan_children ns st)))
      \<le> sum_list (map (\<lambda>cs. Suc (sum_list (map tsize cs))) (fst st)) + sum_list (map tsize ns)"
    for ns st
  proof (induction ns st rule: scan_children.induct)
    case (1 st)
    then show ?case by simp
  next
    case (2 idx ns appended list_offsets free)
    then show ?case
      by (cases "idx = []"; cases "map_of list_offsets idx") auto
  next
    case (3 cs ns appended list_offsets free)
    then show ?case by simp
  qed
  have step: "sum_list (map (\<lambda>cs. Suc (sum_list (map tsize cs))) appended)
      < Suc (sum_list (map tsize cs))"
    if "(appended, y) = scan_children cs ([], list_offsets, free)"
    for appended y cs list_offsets free
  proof -
    from that have "appended = fst (scan_children cs ([], list_offsets, free))"
      by (metis fst_conv)
    with scan [of cs "([], list_offsets, free)"] show ?thesis by simp
  qed
  show ?thesis
    by (relation "measure (\<lambda>(visited, queue, list_offsets, free).
          sum_list (map (\<lambda>cs. Suc (sum_list (map tsize cs))) queue))")
       (auto dest!: step)
qed

text \<open>The second loop: the entries of one branch table, then of all of them.\<close>

fun pack_entries ::
  "stream \<Rightarrow> (nat list \<times> int) list \<Rightarrow> int \<Rightarrow> int \<Rightarrow> int \<Rightarrow> Node list \<Rightarrow>
     (error \<times> stream) + (stream \<times> int)" where
  "pack_entries s list_offsets list_base branch_base free_branch [] = Inr (s, free_branch)"
| "pack_entries s list_offsets list_base branch_base free_branch (Leaf idx # ns) =
     (case map_of list_offsets idx of
        None \<Rightarrow> Inl (KeyError, s)
      | Some off \<Rightarrow>
          (case uint32_pack s (0x80000000 OR (list_base + off - 2 - branch_base)) of
             Inl e \<Rightarrow> Inl e
           | Inr s' \<Rightarrow> pack_entries s' list_offsets list_base branch_base free_branch ns))"
| "pack_entries s list_offsets list_base branch_base free_branch (Branch cs # ns) =
     (case uint32_pack s (free_branch - branch_base) of
        Inl e \<Rightarrow> Inl e
      | Inr s' \<Rightarrow>
          pack_entries s' list_offsets list_base branch_base
            (free_branch + 4 * int (length cs)) ns)"

fun pack_tables ::
  "stream \<Rightarrow> (nat list \<times> int) list \<Rightarrow> int \<Rightarrow> int \<Rightarrow> int \<Rightarrow> Node list list \<Rightarrow> result" where
  "pack_tables s list_offsets list_base branch_base free_branch [] = Inr s"
| "pack_tables s list_offsets list_base branch_base free_branch (cs # branches) =
     (case pack_entries s list_offsets list_base branch_base free_branch cs of
        Inl e \<Rightarrow> Inl e
      | Inr (s', free_branch') \<Rightarrow>
          pack_tables s' list_offsets list_base (branch_base + 4 * int (length cs))
            free_branch' branches)"

text \<open>The third loop: the index lists.\<close>

fun pack_indices :: "stream \<Rightarrow> nat list \<Rightarrow> result" where
  "pack_indices s [] = Inr s"
| "pack_indices s (index # idx) =
     (case uint16_pack s (int index + 1) of Inl e \<Rightarrow> Inl e | Inr s' \<Rightarrow> pack_indices s' idx)"

fun pack_lists :: "stream \<Rightarrow> nat list list \<Rightarrow> result" where
  "pack_lists s [] = Inr s"
| "pack_lists s (idx # keys) =
     (case pack_indices s idx of
        Inl e \<Rightarrow> Inl e
      | Inr s' \<Rightarrow> (case uint16_pack s' 0 of Inl e \<Rightarrow> Inl e | Inr s'' \<Rightarrow> pack_lists s'' keys))"

definition Octree_pack :: "stream \<Rightarrow> octree \<Rightarrow> result" where
  "Octree_pack s t =
     (case walk [] [children t] [] 0 of
        (branches, list_offsets, free_list_offset) \<Rightarrow>
          (let list_base = 4 * int (sum_list (map length branches));
               list_offsets' = AList.update [] (free_list_offset - 2) list_offsets
           in case pack_tables s list_offsets' list_base 0 (4 * int (length (children t)))
                     branches of
                Inl e \<Rightarrow> Inl e
              | Inr s' \<Rightarrow> pack_lists s' (map fst (AList.delete [] list_offsets'))))"

subsection \<open>Collision: pack\<close>

record header =
  vertex_offset :: int
  normal_offset :: int
  face_offset :: int
  octree_offset :: int
  unknown0 :: real
  header_base :: Vector
  x_mask :: int
  y_mask :: int
  z_mask :: int
  coordinate_shift :: int
  y_shift :: int
  z_shift :: int

record face =
  face_length :: real
  p_index :: nat
  n_index :: nat
  a_index :: nat
  b_index :: nat
  c_index :: nat
  face_group_index :: int

definition Header_pack :: "stream \<Rightarrow> header \<Rightarrow> result" where
  "Header_pack s h =
     (case uint32_pack s (vertex_offset h) of Inl e \<Rightarrow> Inl e | Inr s1 \<Rightarrow>
     (case uint32_pack s1 (normal_offset h) of Inl e \<Rightarrow> Inl e | Inr s2 \<Rightarrow>
     (case uint32_pack s2 (face_offset h) of Inl e \<Rightarrow> Inl e | Inr s3 \<Rightarrow>
     (case uint32_pack s3 (octree_offset h) of Inl e \<Rightarrow> Inl e | Inr s4 \<Rightarrow>
     (case float32_pack s4 (unknown0 h) of Inl e \<Rightarrow> Inl e | Inr s5 \<Rightarrow>
     (case Vector_pack s5 (header_base h) of Inl e \<Rightarrow> Inl e | Inr s6 \<Rightarrow>
     (case uint32_pack s6 (x_mask h) of Inl e \<Rightarrow> Inl e | Inr s7 \<Rightarrow>
     (case uint32_pack s7 (y_mask h) of Inl e \<Rightarrow> Inl e | Inr s8 \<Rightarrow>
     (case uint32_pack s8 (z_mask h) of Inl e \<Rightarrow> Inl e | Inr s9 \<Rightarrow>
     (case uint32_pack s9 (coordinate_shift h) of Inl e \<Rightarrow> Inl e | Inr s10 \<Rightarrow>
     (case uint32_pack s10 (y_shift h) of Inl e \<Rightarrow> Inl e | Inr s11 \<Rightarrow>
      uint32_pack s11 (z_shift h))))))))))))"

definition Face_pack :: "stream \<Rightarrow> face \<Rightarrow> result" where
  "Face_pack s f =
     (case float32_pack s (face_length f) of Inl e \<Rightarrow> Inl e | Inr s1 \<Rightarrow>
     (case uint16_pack s1 (int (p_index f)) of Inl e \<Rightarrow> Inl e | Inr s2 \<Rightarrow>
     (case uint16_pack s2 (int (n_index f)) of Inl e \<Rightarrow> Inl e | Inr s3 \<Rightarrow>
     (case uint16_pack s3 (int (a_index f)) of Inl e \<Rightarrow> Inl e | Inr s4 \<Rightarrow>
     (case uint16_pack s4 (int (b_index f)) of Inl e \<Rightarrow> Inl e | Inr s5 \<Rightarrow>
     (case uint16_pack s5 (int (c_index f)) of Inl e \<Rightarrow> Inl e | Inr s6 \<Rightarrow>
      uint16_pack s6 (face_group_index f)))))))"

text \<open>A loop that packs the elements of a list one after the other.\<close>

fun pack_all :: "(stream \<Rightarrow> 'a \<Rightarrow> result) \<Rightarrow> stream \<Rightarrow> 'a list \<Rightarrow> result" where
  "pack_all p s [] = Inr s"
| "pack_all p s (a # as) = (case p s a of Inl e \<Rightarrow> Inl e | Inr s' \<Rightarrow> pack_all p s' as)"

text \<open>The body of the loop \<open>for face,triangle in zip(faces,triangles)\<close>.\<close>

definition make_face :: "welder \<Rightarrow> welder \<Rightarrow> triangle \<Rightarrow> error + (face \<times> welder \<times> welder)" where
  "make_face vertex_welder normal_welder t =
     ebind (unit (cross (vsub (tri_u t) (tri_w t)) (tri_n t))) (\<lambda>a.
     ebind (unit (cross (vsub (tri_v t) (tri_u t)) (tri_n t))) (\<lambda>b.
     ebind (unit (cross (vsub (tri_w t) (tri_v t)) (tri_n t))) (\<lambda>c.
     ebind (add vertex_welder (tri_u t)) (\<lambda>(p, vw).
     ebind (add normal_welder (tri_n t)) (\<lambda>(n, nw1).
     ebind (add nw1 a) (\<lambda>(ai, nw2).
     ebind (add nw2 b) (\<lambda>(bi, nw3).
     ebind (add nw3 c) (\<lambda>(ci, nw4).
       Inr (\<lparr>face_length = dot (vsub (tri_v t) (tri_u t)) c, p_index = p, n_index = n,
              a_index = ai, b_index = bi, c_index = ci,
              face_group_index = group_index t\<rparr>, vw, nw4)))))))))"

fun make_faces ::
  "welder \<Rightarrow> welder \<Rightarrow> triangle list \<Rightarrow> error + (face list \<times> welder \<times> welder)" where
  "make_faces vertex_welder normal_welder [] = Inr ([], vertex_welder, normal_welder)"
| "make_faces vertex_welder normal_welder (t # ts) =
     (case make_face vertex_welder normal_welder t of
        Inl e \<Rightarrow> Inl e
      | Inr (f, vw, nw) \<Rightarrow>
          (case make_faces vw nw ts of
             Inl e \<Rightarrow> Inl e
           | Inr (fs, vw', nw') \<Rightarrow> Inr (f # fs, vw', nw')))"

text \<open>\<open>int(log(n,2))\<close> on an integer; \<open>math.log\<close> raises ValueError unless \<open>n\<close> is positive.\<close>

definition shift_of :: "int \<Rightarrow> error + int" where
  "shift_of n = (if n \<le> 0 then Inl ValueError else Inr (py_int (log 2 (real_of_int n))))"

text \<open>The last part of \<open>pack\<close>: the header is filled in and written at offset 0.\<close>

definition write_header :: "stream \<Rightarrow> octree \<Rightarrow> int \<Rightarrow> int \<Rightarrow> int \<Rightarrow> int \<Rightarrow> result" where
  "write_header s t vertex_off normal_off face_off octree_off =
     (case shift_of (base_width t) of
        Inl e \<Rightarrow> Inl (e, s)
      | Inr cshift \<Rightarrow>
     (case shift_of (nx t) of
        Inl e \<Rightarrow> Inl (e, s)
      | Inr yshift \<Rightarrow>
     (case shift_of (ny t) of
        Inl e \<Rightarrow> Inl (e, s)
      | Inr ylog \<Rightarrow>
          Header_pack (stream_seek s 0)
            \<lparr>vertex_offset = vertex_off, normal_offset = normal_off, face_offset = face_off,
             octree_offset = octree_off, unknown0 = 40, header_base = base t,
             x_mask = NOT (width_x t - 1) AND 0xFFFFFFFF,
             y_mask = NOT (width_y t - 1) AND 0xFFFFFFFF,
             z_mask = NOT (width_z t - 1) AND 0xFFFFFFFF,
             coordinate_shift = cshift, y_shift = yshift, z_shift = yshift + ylog\<rparr>)))"

text \<open>The part of \<open>pack\<close> after the three checks, from the first write on.\<close>

definition write_all ::
  "nat \<Rightarrow> stream \<Rightarrow> triangle list \<Rightarrow> int \<Rightarrow> int \<Rightarrow> face list \<Rightarrow> Vector list \<Rightarrow> Vector list \<Rightarrow>
     result" where
  "write_all depth s ts maxt minw faces vs ns =
     (let s0 = stream_write s (replicate Header_sizeof (B 0));
          vertex_off = int (stream_tell s0)
      in (case pack_all Vector_pack s0 vs of
            Inl e \<Rightarrow> Inl e
          | Inr s1 \<Rightarrow>
     (let normal_off = int (stream_tell s1)
      in (case pack_all Vector_pack s1 ns of
            Inl e \<Rightarrow> Inl e
          | Inr s2 \<Rightarrow>
     (let face_off = int (stream_tell s2) - int Face_sizeof
      in (case pack_all Face_pack s2 faces of
            Inl e \<Rightarrow> Inl e
          | Inr s3 \<Rightarrow>
     (let octree_off = int (stream_tell s3)
      in (case Octree depth ts maxt minw of
            Inl e \<Rightarrow> Inl (e, s3)
          | Inr t \<Rightarrow>
     (case Octree_pack s3 t of
        Inl e \<Rightarrow> Inl e
      | Inr s4 \<Rightarrow> write_header s4 t vertex_off normal_off face_off octree_off)))))))))"

text \<open>
  \<open>pack(stream,triangles,max_triangles,min_width)\<close>.  The first argument bounds the
  depth of the recursion of \<open>Octree.node\<close>.
\<close>

definition pack :: "nat \<Rightarrow> stream \<Rightarrow> triangle list \<Rightarrow> int \<Rightarrow> int \<Rightarrow> result" where
  "pack depth s ts maxt minw =
     (if int (length ts) \<ge> 0xFFFF - 1 then Inl (GeometryOverflowError ''too many faces'', s)
      else
        (case make_faces
                (VertexWelder (1 / 2) (nat \<lceil>real (length ts) / 64\<rceil>))
                (VertexWelder (1 / 2 ^ 22) (nat \<lceil>4 * real (length ts) / 64\<rceil>)) ts of
           Inl e \<Rightarrow> Inl (e, s)
         | Inr (faces, vertex_welder, normal_welder) \<Rightarrow>
             (if int (length (vertices vertex_welder)) \<ge> 0xFFFF
              then Inl (GeometryOverflowError ''too many vertices'', s)
              else if int (length (vertices normal_welder)) \<ge> 0xFFFF
              then Inl (GeometryOverflowError ''too many normals'', s)
              else write_all depth s ts maxt minw faces
                     (vertices vertex_welder) (vertices normal_welder))))"

subsection \<open>Vocabulary of the statements\<close>

fun is_overflow :: "error \<Rightarrow> bool" where
  "is_overflow (GeometryOverflowError m) = True"
| "is_overflow e = False"

text \<open>What a stream holds before its position (zero bytes where nothing was written).\<close>

definition written :: "stream \<Rightarrow> byte list" where
  "written s = take (pos s) (data s @ replicate (pos s - length (data s)) (B 0))"

text \<open>Sample inputs: an empty little-endian stream and a triangle in the plane \<open>z = 0\<close>.\<close>

definition empty_stream :: stream where
  "empty_stream = \<lparr>data = [], pos = 0, endian = LITTLE_ENDIAN\<rparr>"

definition flat_triangle :: triangle where
  "flat_triangle = \<lparr>tri_u = Vector 0 0 0, tri_v = Vector 1 0 0, tri_w = Vector 0 1 0,
     tri_n = Vector 0 0 1, group_index = 0\<rparr>"


text \<open>A right triangle with sides 3, 4 and 5 in the plane \<open>z = 0\<close>.\<close>

definition tri345 :: triangle where
  "tri345 = \<lparr>tri_u = Vector 0 0 0, tri_v = Vector 3 0 0, tri_w = Vector 0 4 0,
     tri_n = Vector 0 0 1, group_index = 0\<rparr>"

text \<open>The bytes of a vector and of a header, field after field.\<close>

definition Vector_bytes :: "endianess \<Rightarrow> Vector \<Rightarrow> byte list" where
  "Vector_bytes e a = float32_bytes e (vx a) @ float32_bytes e (vy a) @ float32_bytes e (vz a)"

definition Header_bytes :: "endianess \<Rightarrow> header \<Rightarrow> byte list" where
  "Header_bytes e h =
     uint_bytes e 4 (vertex_offset h) @ uint_bytes e 4 (normal_offset h) @
     uint_bytes e 4 (face_offset h) @ uint_bytes e 4 (octree_offset h) @
     float32_bytes e (unknown0 h) @ Vector_bytes e (header_base h) @
     uint_bytes e 4 (x_mask h) @ uint_bytes e 4 (y_mask h) @ uint_bytes e 4 (z_mask h) @
     uint_bytes e 4 (coordinate_shift h) @ uint_bytes e 4 (y_shift h) @
     uint_bytes e 4 (z_shift h)"

text \<open>The bytes of one index list: the indices plus one, then a terminating zero.\<close>

definition list_bytes :: "endianess \<Rightarrow> nat list \<Rightarrow> byte list" where
  "list_bytes e idx = concat (map (\<lambda>i. uint_bytes e 2 (int i + 1)) idx) @ uint_bytes e 2 0"



section \<open>Size of the structures\<close>


lemma Face_sizeof_eq: "Face_sizeof = 16"
  by (simp add: Face_sizeof_def Face_struct_def)

lemma Header_sizeof_eq: "Header_sizeof = 56"
  by (simp add: Header_sizeof_def Header_struct_def Vector_struct_def)

section \<open>Positions and contents of a stream\<close>

lemma length_le_bytes [simp]: "length (le_bytes n v) = n"
  by (induction n arbitrary: v) auto

lemma length_order_bytes [simp]: "length (order_bytes e bs) = length bs"
  by (simp add: order_bytes_def split: endianess.splits)

lemma length_uint_bytes [simp]: "length (uint_bytes e n v) = n"
  by (simp add: uint_bytes_def)

lemma length_float32_bytes [simp]: "length (float32_bytes e x) = 4"
  by (simp add: float32_bytes_def)

lemma pos_stream_write [simp]: "pos (stream_write s bs) = pos s + length bs"
  by (simp add: stream_write_def Let_def)

lemma endian_stream_write [simp]: "endian (stream_write s bs) = endian s"
  by (simp add: stream_write_def Let_def)

lemma written_stream_write [simp]: "written (stream_write s bs) = written s @ bs"
  by (simp add: written_def stream_write_def Let_def)

lemma length_written [simp]: "length (written s) = pos s"
  by (simp add: written_def)

lemma uint_pack_Inr:
  "uint_pack n s v = Inr s' \<Longrightarrow>
     s' = stream_write s (uint_bytes (endian s) n v) \<and> 0 \<le> v \<and> v < 2 ^ (8 * n)"
  by (auto simp: uint_pack_def split: if_splits)

lemma uint_pack_Inl: "uint_pack n s v = Inl (e, s') \<Longrightarrow> e = StructError \<and> s' = s"
  by (auto simp: uint_pack_def split: if_splits)

lemma float32_pack_Inr:
  "float32_pack s x = Inr s' \<Longrightarrow> s' = stream_write s (float32_bytes (endian s) x)"
  by (auto simp: float32_pack_def split: if_splits)

lemma float32_pack_Inl: "float32_pack s x = Inl (e, s') \<Longrightarrow> e = OverflowError \<and> s' = s"
  by (auto simp: float32_pack_def split: if_splits)

section \<open>No part of the packer but its three checks raises GeometryOverflowError\<close>

lemma collect_Inl: "collect rs = Inl e \<Longrightarrow> Inl e \<in> set rs"
  by (induction rs) (auto split: sum.splits)

lemma collect_Inr: "collect rs = Inr xs \<Longrightarrow> rs = map Inr xs"
  by (induction rs arbitrary: xs) (auto split: sum.splits)

lemma py_get_Inl: "py_get xs i = Inl e \<Longrightarrow> e = IndexError"
  by (auto simp: py_get_def Let_def split: if_splits)

lemma unit_Inl: "unit a = Inl e \<Longrightarrow> e = ZeroDivisionError"
  by (auto simp: unit_def truediv_def split: if_splits)

lemma calculate_hash_Inl: "calculate_hash w ix iy iz = Inl e \<Longrightarrow> e = ZeroDivisionError"
  by (auto simp: calculate_hash_def split: if_splits)

lemma scan_bucket_Inl: "scan_bucket w v bucket = Inl e \<Longrightarrow> e = IndexError"
  by (induction bucket) (auto split: if_splits)

lemma scan_cells_Inl: "scan_cells w v cells = Inl e \<Longrightarrow> \<not> is_overflow e"
  by (induction w v cells rule: scan_cells.induct)
     (auto split: sum.splits option.splits dest: calculate_hash_Inl scan_bucket_Inl)

lemma add_Inl: "add w v = Inl e \<Longrightarrow> \<not> is_overflow e"
  by (auto simp: add_def Let_def split: if_splits sum.splits option.splits
      dest: calculate_hash_Inl scan_cells_Inl)

lemma make_face_Inl: "make_face vw nw t = Inl e \<Longrightarrow> \<not> is_overflow e"
  by (auto simp: make_face_def ebind_def split: sum.splits prod.splits
      dest: unit_Inl add_Inl)

lemma make_faces_Inl: "make_faces vw nw ts = Inl e \<Longrightarrow> \<not> is_overflow e"
  by (induction ts arbitrary: vw nw) (auto split: sum.splits prod.splits dest: make_face_Inl)

lemma node_Inl: "node depth ts maxt minw b width idx = Inl e \<Longrightarrow> \<not> is_overflow e"
proof (induction depth arbitrary: b width idx)
  case 0
  then show ?case by simp
next
  case (Suc depth)
  show ?case
  proof (rule notI)
    assume ov: "is_overflow e"
    let ?hw = "width / 2"
    let ?idx = "overlapping ts (vadd b (Vector ?hw ?hw ?hw)) ?hw idx"
    from Suc.prems ov have
      "collect (map (\<lambda>key. node depth ts maxt minw (corner b ?hw key) ?hw ?idx) octants) = Inl e"
      by (auto simp: Let_def split: if_splits sum.splits)
    then obtain key where "node depth ts maxt minw (corner b ?hw key) ?hw ?idx = Inl e"
      by (auto dest!: collect_Inl)
    with Suc.IH ov show False by blast
  qed
qed

lemma width_exponent_Inl: "width_exponent extent minw = Inl e \<Longrightarrow> e = ValueError"
  by (auto simp: width_exponent_def Let_def split: if_splits)

lemma flatten_cond_Inl: "flatten_cond t = Inl e \<Longrightarrow> e = ZeroDivisionError"
  by (auto simp: flatten_cond_def split: if_splits)

lemma node_getitem_Inl: "node_getitem n key = Inl e \<Longrightarrow> e = IndexError"
  by (cases n; cases key) (auto dest: py_get_Inl)

lemma ebind_Inl: "ebind m f = Inl e \<Longrightarrow> m = Inl e \<or> (\<exists>a. m = Inr a \<and> f a = Inl e)"
  by (auto simp: ebind_def split: sum.splits)

lemma flatten_step_Inl: "flatten_step t = Inl e \<Longrightarrow> e = IndexError"
proof -
  assume "flatten_step t = Inl e"
  then obtain i j k where
    "ebind (octree_getitem t (i div 2, j div 2, k div 2))
       (\<lambda>n. node_getitem n (i mod 2, j mod 2, k mod 2)) = Inl e"
    by (auto simp: flatten_step_def split: sum.splits dest!: collect_Inl)
  then show ?thesis
    by (auto simp: octree_getitem_def dest!: ebind_Inl dest: py_get_Inl node_getitem_Inl)
qed

lemma flatten_loop_Inl: "flatten_loop t = Inl e \<Longrightarrow> \<not> is_overflow e"
proof (induction t rule: flatten_loop.induct)
  case (1 t)
  show ?case
  proof (cases "flatten_cond t")
    case (Inl e')
    with "1.prems" show ?thesis by (auto dest: flatten_cond_Inl)
  next
    case (Inr c)
    show ?thesis
    proof (cases c)
      case False
      with Inr "1.prems" show ?thesis by simp
    next
      case True
      show ?thesis
      proof (cases "flatten_step t")
        case (Inl e')
        with Inr True "1.prems" show ?thesis by (auto dest: flatten_step_Inl)
      next
        case (Inr t')
        with \<open>flatten_cond t = Inr c\<close> True "1.prems" "1.IH" show ?thesis by auto
      qed
    qed
  qed
qed

lemma top_nodes_Inl: "top_nodes depth ts maxt minw b bw n_x n_y n_z = Inl e \<Longrightarrow> \<not> is_overflow e"
  by (auto simp: top_nodes_def dest!: collect_Inl dest: node_Inl node_Inl [OF sym])

lemma Octree_grid_Inl: "Octree_grid depth ts maxt minw = Inl e \<Longrightarrow> \<not> is_overflow e"
  unfolding Octree_grid_def Let_def
  by (auto split: if_splits dest!: ebind_Inl dest: width_exponent_Inl top_nodes_Inl)

lemma Octree_Inl: "Octree depth ts maxt minw = Inl e \<Longrightarrow> \<not> is_overflow e"
  unfolding Octree_def
  by (auto dest!: ebind_Inl dest: Octree_grid_Inl flatten_loop_Inl)

lemma Vector_pack_Inl: "Vector_pack s a = Inl (e, s') \<Longrightarrow> \<not> is_overflow e"
  by (auto simp: Vector_pack_def split: sum.splits dest: float32_pack_Inl)

lemma Face_pack_Inl: "Face_pack s f = Inl (e, s') \<Longrightarrow> \<not> is_overflow e"
  by (auto simp: Face_pack_def uint16_pack_def split: sum.splits
      dest: float32_pack_Inl uint_pack_Inl)

lemma Header_pack_Inl: "Header_pack s h = Inl (e, s') \<Longrightarrow> \<not> is_overflow e"
  by (auto simp: Header_pack_def uint32_pack_def split: sum.splits
      dest: float32_pack_Inl uint_pack_Inl Vector_pack_Inl)

lemma pack_all_Inl:
  assumes "pack_all p s xs = Inl (e, s')"
    and "\<And>s a e s'. p s a = Inl (e, s') \<Longrightarrow> \<not> is_overflow e"
  shows "\<not> is_overflow e"
  using assms by (induction xs arbitrary: s) (auto split: sum.splits)

lemma pack_entries_Inl:
  "pack_entries s lo lb bb fb ns = Inl (e, s') \<Longrightarrow> \<not> is_overflow e"
  by (induction s lo lb bb fb ns rule: pack_entries.induct)
     (auto simp: uint32_pack_def split: sum.splits option.splits dest: uint_pack_Inl)

lemma pack_tables_Inl:
  "pack_tables s lo lb bb fb bs = Inl (e, s') \<Longrightarrow> \<not> is_overflow e"
  by (induction s lo lb bb fb bs rule: pack_tables.induct)
     (auto split: sum.splits prod.splits dest: pack_entries_Inl)

lemma pack_indices_Inl: "pack_indices s idx = Inl (e, s') \<Longrightarrow> \<not> is_overflow e"
  by (induction s idx rule: pack_indices.induct)
     (auto simp: uint16_pack_def split: sum.splits dest: uint_pack_Inl)

lemma pack_lists_Inl: "pack_lists s keys = Inl (e, s') \<Longrightarrow> \<not> is_overflow e"
  by (induction s keys rule: pack_lists.induct)
     (auto simp: uint16_pack_def split: sum.splits dest: uint_pack_Inl pack_indices_Inl)

lemma Octree_pack_Inl: "Octree_pack s t = Inl (e, s') \<Longrightarrow> \<not> is_overflow e"
  by (auto simp: Octree_pack_def Let_def split: prod.splits sum.splits
      dest: pack_tables_Inl pack_lists_Inl)

lemma shift_of_Inl: "shift_of n = Inl e \<Longrightarrow> e = ValueError"
  by (auto simp: shift_of_def split: if_splits)

lemma write_header_Inl:
  "write_header s t vo no fo oo = Inl (e, s') \<Longrightarrow> \<not> is_overflow e"
  by (auto simp: write_header_def split: sum.splits dest: shift_of_Inl Header_pack_Inl)

lemma write_all_Inl:
  "write_all depth s ts maxt minw faces vs ns = Inl (e, s') \<Longrightarrow> \<not> is_overflow e"
  unfolding write_all_def Let_def
  by (auto split: sum.splits
      dest: pack_all_Inl [OF _ Vector_pack_Inl] pack_all_Inl [OF _ Face_pack_Inl]
        Octree_Inl Octree_pack_Inl write_header_Inl)

lemma pack_overflow:
  assumes "pack depth s ts maxt minw = Inl (e, s')" and "is_overflow e"
  shows "s' = s \<and>
    (e = GeometryOverflowError ''too many faces'' \<and> 65534 \<le> length ts \<or>
     e = GeometryOverflowError ''too many vertices'' \<and> length ts < 65534 \<or>
     e = GeometryOverflowError ''too many normals'' \<and> length ts < 65534)"
  using assms unfolding pack_def
  by (auto split: if_splits sum.splits prod.splits dest: make_faces_Inl write_all_Inl)

section \<open>The face count check of pack\<close>



section \<open>The sink on an overflow error\<close>

text \<open>
  Claim C10: whenever pack raises GeometryOverflowError, for any of its three reasons
  (too many faces, too many vertices, too many normals), the sink is as it was before
  the call: nothing has been written.
\<close>

theorem pack_overflow_leaves_sink_unchanged:
  "pack depth s ts maxt minw = Inl (e, s') \<Longrightarrow> is_overflow e \<Longrightarrow>
     s' = s \<and> e \<in> {GeometryOverflowError ''too many faces'',
                   GeometryOverflowError ''too many vertices'',
                   GeometryOverflowError ''too many normals''}"
  using pack_overflow [of depth s ts maxt minw e s'] by auto

theorem pack_overflow_leaves_sink_unchanged_witness:
  "pack 1000 \<lparr>data = [B 7, B 9], pos = 1, endian = BIG_ENDIAN\<rparr>
       (replicate 70000 flat_triangle) 25 8 =
     Inl (GeometryOverflowError ''too many faces'',
          \<lparr>data = [B 7, B 9], pos = 1, endian = BIG_ENDIAN\<rparr>) \<and>
   is_overflow (GeometryOverflowError ''too many faces'') \<and>
   GeometryOverflowError ''too many faces'' \<in>
     {GeometryOverflowError ''too many faces'', GeometryOverflowError ''too many vertices'',
      GeometryOverflowError ''too many normals''}"
proof -
  have raised: "pack 1000 \<lparr>data = [B 7, B 9], pos = 1, endian = BIG_ENDIAN\<rparr>
       (replicate 70000 flat_triangle) 25 8 =
     Inl (GeometryOverflowError ''too many faces'',
          \<lparr>data = [B 7, B 9], pos = 1, endian = BIG_ENDIAN\<rparr>)"
    by (simp add: pack_def)
  have ov: "is_overflow (GeometryOverflowError ''too many faces'')"
    by simp
  from pack_overflow_leaves_sink_unchanged [OF raised ov] raised ov
  show ?thesis by simp
qed

section \<open>The vertex welder\<close>








text \<open>The tolerance scenario: \<open>(0,0,0)\<close> and \<open>(0.4,0,0)\<close> are one vertex at threshold 0.5.\<close>

lemma weld_two_close_vertices:
  "ebind (add (VertexWelder (1 / 2) 1) (Vector 0 0 0))
     (\<lambda>(i, w). ebind (add w (Vector (2 / 5) 0 0)) (\<lambda>(j, w'). Inr (i, j, vertices w')))
   = Inr (0, 0, [Vector 0 0 0])"
  by (simp add: add_def VertexWelder_def Let_def py_int_def calculate_hash_def ebind_def
      close_to_def)

section \<open>Octree nodes\<close>

lemma length_octants: "length octants = 8"
  by (simp add: octants_def)

lemma node_Suc_Inr:
  assumes "node (Suc depth) ts maxt minw b width idx = Inr n"
  shows "(\<forall>i \<in> set idx. i < length ts) \<and>
    (let half_width = width / 2;
         idx' = overlapping ts (vadd b (Vector half_width half_width half_width)) half_width idx
     in if int (length idx') > maxt \<and> half_width \<ge> real_of_int minw
        then \<exists>cs. n = Branch cs \<and>
               map (\<lambda>key. node depth ts maxt minw (corner b half_width key) half_width idx')
                 octants = map Inr cs
        else n = Leaf idx')"
  using assms
  by (auto simp: Let_def not_le split: if_splits sum.splits dest!: collect_Inr)

lemma node_0: "node 0 ts maxt minw b width idx \<noteq> Inr n"
  by simp

text \<open>
  Claim C5: a node built by \<open>Octree.node\<close> from the candidates \<open>S\<close> filters \<open>S\<close>, keeping
  its order, by \<open>tribox_overlap\<close> against its own cube (centre \<open>base + (h,h,h)\<close>, half
  width \<open>h = width/2\<close>) to get \<open>S'\<close>; it is a leaf, holding exactly \<open>S'\<close>, if and only if
  \<open>|S'| \<le> max_triangles\<close> or \<open>h < min_width\<close>; otherwise it is a branch with exactly 8
  children, the child of octant \<open>(i,j,k)\<close> built from \<open>S'\<close> at \<open>base + h*(i,j,k)\<close> with
  width \<open>h\<close>.
\<close>

theorem node_is_leaf_iff:
  assumes "node depth ts maxt minw b width S = Inr n"
    and "h = width / 2"
    and "S' = filter (\<lambda>i. tribox_overlap (ts ! i) (vadd b (Vector h h h)) h) S"
  shows "subseq S' S \<and>
    (is_leaf n \<longleftrightarrow> int (length S') \<le> maxt \<or> h < real_of_int minw) \<and>
    (is_leaf n \<longrightarrow> n = Leaf S') \<and>
    (\<not> is_leaf n \<longrightarrow>
       length (node_children n) = 8 \<and>
       (\<forall>k < 8. node (depth - 1) ts maxt minw (corner b h (octants ! k)) h S' =
                  Inr (node_children n ! k)))"
proof (cases depth)
  case 0
  with assms(1) show ?thesis by simp
next
  case (Suc d)
  have sub: "subseq S' S" unfolding assms(3) by simp
  from assms(1) Suc have
    *: "if int (length S') > maxt \<and> h \<ge> real_of_int minw
        then \<exists>cs. n = Branch cs \<and>
               map (\<lambda>key. node d ts maxt minw (corner b h key) h S') octants = map Inr cs
        else n = Leaf S'"
    using node_Suc_Inr [of d ts maxt minw b width S n]
    by (simp add: Let_def overlapping_def assms(2,3))
  show ?thesis
  proof (cases "int (length S') > maxt \<and> h \<ge> real_of_int minw")
    case True
    with * obtain cs where cs: "n = Branch cs"
      "map (\<lambda>key. node d ts maxt minw (corner b h key) h S') octants = map Inr cs"
      by auto
    from cs(2) have len: "length cs = 8"
      using length_octants by (metis length_map)
    have "node d ts maxt minw (corner b h (octants ! k)) h S' = Inr (cs ! k)" if "k < 8" for k
    proof -
      have "node d ts maxt minw (corner b h (octants ! k)) h S'
          = map (\<lambda>key. node d ts maxt minw (corner b h key) h S') octants ! k"
        using that by (simp add: length_octants)
      also have "\<dots> = map Inr cs ! k" by (simp only: cs(2))
      also have "\<dots> = Inr (cs ! k)" using that len by simp
      finally show ?thesis .
    qed
    with True cs(1) len sub Suc show ?thesis by auto
  next
    case False
    with * have "n = Leaf S'" by simp
    with False sub show ?thesis by auto
  qed
qed

lemma node_example:
  "node 2 [flat_triangle, flat_triangle] 1 1 (Vector 0 0 0) 2 [0, 1] =
     Inr (Branch [Leaf [0, 1], Leaf [0, 1], Leaf [0, 1], Leaf [], Leaf [], Leaf [], Leaf [], Leaf []])"
  by (simp add: eval_nat_numeral Let_def overlapping_def tribox_overlap_def flat_triangle_def
      vadd_def rmul_def corner_def octants_def edge_test_def edge_axis_test_def)

theorem node_is_leaf_iff_witness:
  "node 2 [flat_triangle, flat_triangle] 1 1 (Vector 0 0 0) 2 [0, 1] =
     Inr (Branch [Leaf [0, 1], Leaf [0, 1], Leaf [0, 1], Leaf [], Leaf [], Leaf [], Leaf [], Leaf []]) \<and>
   \<not> int (length (filter (\<lambda>i. tribox_overlap ([flat_triangle, flat_triangle] ! i)
            (vadd (Vector 0 0 0) (Vector 1 1 1)) 1) [0, 1])) \<le> 1 \<and>
   \<not> (1 :: real) < real_of_int 1"
proof -
  have h: "(1 :: real) = 2 / 2" by simp
  from node_is_leaf_iff [OF node_example h refl]
  show ?thesis using node_example by simp
qed

section \<open>A complete run of pack\<close>

lemma sqrt_25: "sqrt 25 = 5"
  by (rule real_sqrt_unique) simp_all

lemma sqrt_16: "sqrt 16 = 4"
  by (rule real_sqrt_unique) simp_all

lemma sqrt_9: "sqrt 9 = 3"
  by (rule real_sqrt_unique) simp_all

lemma Triangle_345: "Triangle (Vector 0 0 0) (Vector 3 0 0) (Vector 0 4 0) 0 = Inr tri345"
  by (simp add: Triangle_def unit_def truediv_def vnorm_def norm_square_def cross_def vsub_def
      ebind_def tri345_def real_sqrt_mult sqrt_9 sqrt_16 algebra_simps)

lemma make_faces_345:
  "make_faces (VertexWelder (1 / 2) 1) (VertexWelder (1 / 2 ^ 22) 1) [tri345] =
     Inr ([\<lparr>face_length = 12 / 5, p_index = 0, n_index = 0, a_index = 1, b_index = 2,
            c_index = 3, face_group_index = 0\<rparr>],
          \<lparr>threshold = 1 / 2, cell_width = 8, buckets = [[0]], vertices = [Vector 0 0 0]\<rparr>,
          \<lparr>threshold = 1 / 2 ^ 22, cell_width = 16 / 2 ^ 22, buckets = [[0, 1, 2, 3]],
           vertices = [Vector 0 0 1, Vector (- 1) 0 0, Vector 0 (- 1) 0, Vector (4 / 5) (3 / 5) 0]\<rparr>)"
  by (simp add: make_face_def tri345_def unit_def truediv_def vnorm_def norm_square_def
      cross_def vsub_def dot_def ebind_def sqrt_25 sqrt_16 sqrt_9
      add_def VertexWelder_def Let_def py_int_def calculate_hash_def close_to_def)

lemma log2_pow: "log 2 (2 ^ n) = real n"
  by (rule log_pow_cancel) simp_all

lemma log2_8: "log 2 8 = 3"
  using log2_pow [of 3] by simp

lemma tribox_overlap_345: "tribox_overlap tri345 (Vector 4 4 4) 4"
  by (simp add: tribox_overlap_def tri345_def edge_test_def edge_axis_test_def)

lemma node_345: "node (Suc 0) [tri345] 25 8 (Vector 0 0 0) 8 [0] = Inr (Leaf [0])"
  by (simp add: Let_def overlapping_def vadd_def tribox_overlap_345)

lemma width_exponent_8: "x \<le> 8 \<Longrightarrow> width_exponent x 8 = Inr 3"
  by (simp add: width_exponent_def Let_def max_def log2_8)

lemma top_nodes_345:
  "top_nodes (Suc 0) [tri345] 25 8 (Vector 0 0 0) 8 1 1 1 = Inr [Leaf [0]]"
  using node_345 by (simp add: top_nodes_def corner_def vadd_def rmul_def)

lemma Octree_grid_345:
  "Octree_grid (Suc 0) [tri345] 25 8 =
     Inr \<lparr>triangles = [tri345], max_triangles = 25, min_width = 8, base = Vector 0 0 0,
          width_x = 8, width_y = 8, width_z = 8, base_width = 8, nx = 1, ny = 1, nz = 1,
          children = [Leaf [0]]\<rparr>"
proof -
  have c: "coords vx [tri345] = [0, 3, 0]" "coords vy [tri345] = [0, 0, 4]"
    "coords vz [tri345] = [0, 0, 0]"
    by (simp_all add: coords_def tri345_def)
  show ?thesis
    by (simp add: Octree_grid_def Let_def c least_def greatest_def width_exponent_8 ebind_def
        top_nodes_345)
qed

lemma Octree_345:
  "Octree (Suc 0) [tri345] 25 8 =
     Inr \<lparr>triangles = [tri345], max_triangles = 25, min_width = 8, base = Vector 0 0 0,
          width_x = 8, width_y = 8, width_z = 8, base_width = 8, nx = 1, ny = 1, nz = 1,
          children = [Leaf [0]]\<rparr>"
  by (simp add: Octree_def Octree_grid_345 ebind_def flatten_cond_def branch_count_def)

lemma Octree_pack_345:
  "Octree_pack s \<lparr>triangles = [tri345], max_triangles = 25, min_width = 8, base = Vector 0 0 0,
          width_x = 8, width_y = 8, width_z = 8, base_width = 8, nx = 1, ny = 1, nz = 1,
          children = [Leaf [0]]\<rparr> =
     Inr (stream_write (stream_write (stream_write s (uint_bytes (endian s) 4 0x80000002))
            (uint_bytes (endian s) 2 1)) (uint_bytes (endian s) 2 0))"
  by (simp add: Octree_pack_def Let_def uint32_pack_def uint16_pack_def uint_pack_def)

lemma x_mask_8: "NOT (8 - 1 :: int) AND 0xFFFFFFFF = 0xFFFFFFF8"
  by simp

lemma shift_of_8: "shift_of 8 = Inr 3"
  by (simp add: shift_of_def py_int_def log2_8)

lemma shift_of_1: "shift_of 1 = Inr 0"
  by (simp add: shift_of_def py_int_def)

lemma write_all_345:
  "\<exists>s'. write_all (Suc 0) empty_stream [tri345] 25 8
     [\<lparr>face_length = 12 / 5, p_index = 0, n_index = 0, a_index = 1, b_index = 2,
            c_index = 3, face_group_index = 0\<rparr>]
     [Vector 0 0 0]
     [Vector 0 0 1, Vector (- 1) 0 0, Vector 0 (- 1) 0, Vector (4 / 5) (3 / 5) 0] = Inr s'"
  by (simp add: write_all_def Let_def Vector_pack_def float32_pack_def
      Face_pack_def uint16_pack_def uint32_pack_def uint_pack_def Octree_345 Octree_pack_345
      write_header_def shift_of_8 shift_of_1 Header_pack_def stream_tell_def stream_seek_def
      Header_sizeof_eq Face_sizeof_eq empty_stream_def)

lemma pack_345: "\<exists>s'. pack (Suc 0) empty_stream [tri345] 25 8 = Inr s'"
proof -
  have b: "nat \<lceil>real (length [tri345]) / 64\<rceil> = 1"
    "nat \<lceil>4 * real (length [tri345]) / 64\<rceil> = 1"
  proof -
    have "\<lceil>(1 :: real) / 64\<rceil> = 1" "\<lceil>(1 :: real) / 16\<rceil> = 1"
      by (rule ceiling_unique; simp)+
    then show "nat \<lceil>real (length [tri345]) / 64\<rceil> = 1"
      "nat \<lceil>4 * real (length [tri345]) / 64\<rceil> = 1"
      by simp_all
  qed
  show ?thesis
    unfolding pack_def b make_faces_345
    using write_all_345 by simp
qed

section \<open>What the packing functions write\<close>

lemma uint_pack_written:
  "uint_pack n s v = Inr s' \<Longrightarrow>
     written s' = written s @ uint_bytes (endian s) n v \<and> endian s' = endian s \<and>
     pos s' = pos s + n"
  by (auto dest!: uint_pack_Inr)

lemma float32_pack_written:
  "float32_pack s x = Inr s' \<Longrightarrow>
     written s' = written s @ float32_bytes (endian s) x \<and> endian s' = endian s \<and>
     pos s' = pos s + 4"
  by (auto dest!: float32_pack_Inr)

lemma Vector_pack_written:
  "Vector_pack s a = Inr s' \<Longrightarrow>
     written s' = written s @ Vector_bytes (endian s) a \<and> endian s' = endian s \<and>
     pos s' = pos s + 12"
  by (auto simp: Vector_pack_def Vector_bytes_def split: sum.splits
      dest!: float32_pack_written)

lemma Face_pack_written:
  "Face_pack s f = Inr s' \<Longrightarrow> endian s' = endian s \<and> pos s' = pos s + 16"
  by (auto simp: Face_pack_def uint16_pack_def split: sum.splits
      dest!: float32_pack_written uint_pack_written)

lemma pack_all_pos:
  assumes "pack_all p s xs = Inr s'"
    and "\<And>s a s'. p s a = Inr s' \<Longrightarrow> endian s' = endian s \<and> pos s' = pos s + k"
  shows "endian s' = endian s \<and> pos s' = pos s + k * length xs"
  using assms(1)
proof (induction xs arbitrary: s)
  case Nil
  then show ?case by simp
next
  case (Cons a xs)
  then obtain s1 where s1: "p s a = Inr s1" "pack_all p s1 xs = Inr s'"
    by (auto split: sum.splits)
  from assms(2) [OF s1(1)] Cons.IH [OF s1(2)] show ?case by simp
qed

lemma Header_pack_written:
  assumes "Header_pack s h = Inr s'"
  shows "written s' = written s @ Header_bytes (endian s) h \<and> pos s' = pos s + 56 \<and>
    (\<forall>v \<in> {vertex_offset h, normal_offset h, face_offset h, octree_offset h, x_mask h,
            y_mask h, z_mask h, coordinate_shift h, y_shift h, z_shift h}. 0 \<le> v \<and> v < 2 ^ 32)"
proof -
  from assms obtain s1 s2 s3 s4 s5 s6 s7 s8 s9 s10 s11 where
    p: "uint_pack 4 s (vertex_offset h) = Inr s1"
       "uint_pack 4 s1 (normal_offset h) = Inr s2"
       "uint_pack 4 s2 (face_offset h) = Inr s3"
       "uint_pack 4 s3 (octree_offset h) = Inr s4"
       "float32_pack s4 (unknown0 h) = Inr s5"
       "Vector_pack s5 (header_base h) = Inr s6"
       "uint_pack 4 s6 (x_mask h) = Inr s7"
       "uint_pack 4 s7 (y_mask h) = Inr s8"
       "uint_pack 4 s8 (z_mask h) = Inr s9"
       "uint_pack 4 s9 (coordinate_shift h) = Inr s10"
       "uint_pack 4 s10 (y_shift h) = Inr s11"
       "uint_pack 4 s11 (z_shift h) = Inr s'"
    unfolding Header_pack_def uint32_pack_def by (auto split: sum.splits)
  note w = p(1-4,7-12) [THEN uint_pack_written] p(5) [THEN float32_pack_written]
    p(6) [THEN Vector_pack_written]
  have r: "0 \<le> v \<and> v < 2 ^ 32" if "uint_pack 4 a v = Inr b" for a v b
    using uint_pack_Inr [OF that] by simp
  note rs = p(1-4,7-12) [THEN r]
  from w have "written s' = written s @ Header_bytes (endian s) h" "pos s' = pos s + 56"
    by (simp_all add: Header_bytes_def)
  with rs show ?thesis by simp
qed

section \<open>What the octree packer writes\<close>

lemma pack_entries_written:
  "pack_entries s lo lb bb fb ns = Inr (s', fb') \<Longrightarrow>
     \<exists>bs. written s' = written s @ bs \<and> length bs = 4 * length ns \<and> endian s' = endian s"
proof (induction s lo lb bb fb ns rule: pack_entries.induct)
  case (1 s lo lb bb fb)
  then show ?case by simp
next
  case (2 s lo lb bb fb idx ns)
  from "2.prems" obtain off s1 where
    o: "map_of lo idx = Some off"
    and s1: "uint_pack 4 s (0x80000000 OR (lb + off - 2 - bb)) = Inr s1"
    and rest: "pack_entries s1 lo lb bb fb ns = Inr (s', fb')"
    by (auto simp: uint32_pack_def split: option.splits sum.splits)
  from "2.IH" [OF o _ rest] s1 obtain bs where
    "written s' = written s1 @ bs" "length bs = 4 * length ns" "endian s' = endian s1"
    by (auto simp: uint32_pack_def)
  with uint_pack_written [OF s1] show ?case by simp
next
  case (3 s lo lb bb fb cs ns)
  from "3.prems" obtain s1 where
    s1: "uint_pack 4 s (fb - bb) = Inr s1"
    and rest: "pack_entries s1 lo lb bb (fb + 4 * int (length cs)) ns = Inr (s', fb')"
    by (auto simp: uint32_pack_def split: sum.splits)
  from "3.IH" [OF _ rest] s1 obtain bs where
    "written s' = written s1 @ bs" "length bs = 4 * length ns" "endian s' = endian s1"
    by (auto simp: uint32_pack_def)
  with uint_pack_written [OF s1] show ?case by simp
qed

lemma pack_tables_written:
  "pack_tables s lo lb bb fb branches = Inr s' \<Longrightarrow>
     \<exists>bs. written s' = written s @ bs \<and> length bs = 4 * sum_list (map length branches) \<and>
          endian s' = endian s"
proof (induction s lo lb bb fb branches rule: pack_tables.induct)
  case (1 s lo lb bb fb)
  then show ?case by simp
next
  case (2 s lo lb bb fb cs branches)
  from "2.prems" obtain s1 fb1 where
    s1: "pack_entries s lo lb bb fb cs = Inr (s1, fb1)"
    and rest: "pack_tables s1 lo lb (bb + 4 * int (length cs)) fb1 branches = Inr s'"
    by (auto split: sum.splits prod.splits)
  from "2.IH" [OF s1 refl rest] obtain bs where
    bs: "written s' = written s1 @ bs" "length bs = 4 * sum_list (map length branches)"
      "endian s' = endian s1"
    by auto
  from pack_entries_written [OF s1] obtain bs1 where
    "written s1 = written s @ bs1" "length bs1 = 4 * length cs" "endian s1 = endian s"
    by auto
  with bs show ?case by (intro exI [of _ "bs1 @ bs"]) simp
qed

lemma pack_indices_written:
  "pack_indices s idx = Inr s' \<Longrightarrow>
     written s' = written s @ concat (map (\<lambda>i. uint_bytes (endian s) 2 (int i + 1)) idx) \<and>
     endian s' = endian s"
proof (induction s idx rule: pack_indices.induct)
  case (1 s)
  then show ?case by simp
next
  case (2 s index idx)
  from "2.prems" obtain s1 where
    s1: "uint_pack 2 s (int index + 1) = Inr s1" and rest: "pack_indices s1 idx = Inr s'"
    by (auto simp: uint16_pack_def split: sum.splits)
  from "2.IH" [OF _ rest] s1 uint_pack_written [OF s1] show ?case
    by (simp add: uint16_pack_def)
qed

lemma pack_lists_written:
  "pack_lists s keys = Inr s' \<Longrightarrow>
     written s' = written s @ concat (map (list_bytes (endian s)) keys) \<and> endian s' = endian s"
proof (induction s keys rule: pack_lists.induct)
  case (1 s)
  then show ?case by simp
next
  case (2 s idx keys)
  from "2.prems" obtain s1 s2 where
    s1: "pack_indices s idx = Inr s1" and s2: "uint_pack 2 s1 0 = Inr s2"
    and rest: "pack_lists s2 keys = Inr s'"
    by (auto simp: uint16_pack_def split: sum.splits)
  from "2.IH" [OF s1 _ rest] s2 have
    "written s' = written s2 @ concat (map (list_bytes (endian s2)) keys)" "endian s' = endian s2"
    by (simp_all add: uint16_pack_def)
  moreover have "list_bytes (endian s) idx =
      concat (map (\<lambda>i. uint_bytes (endian s) 2 (int i + 1)) idx) @ uint_bytes (endian s) 2 0"
    by (simp add: list_bytes_def)
  ultimately show ?case
    using pack_indices_written [OF s1] uint_pack_written [OF s2] by simp
qed

lemma Octree_pack_endian: "Octree_pack s t = Inr s' \<Longrightarrow> endian s' = endian s"
  by (auto simp: Octree_pack_def Let_def split: prod.splits sum.splits
      dest!: pack_tables_written pack_lists_written)

section \<open>The grid of an octree\<close>






lemma width_exponent_Inr:
  "width_exponent extent minw = Inr e \<Longrightarrow>
     e = \<lceil>log 2 (max extent (real_of_int minw))\<rceil> \<and> 0 < max extent (real_of_int minw)"
  by (auto simp: width_exponent_def Let_def split: if_splits)


section \<open>The header\<close>







lemma pack_Inr:
  assumes "pack depth s ts maxt minw = Inr s'"
  shows "\<exists>faces vw nw.
    make_faces (VertexWelder (1 / 2) (nat \<lceil>real (length ts) / 64\<rceil>))
      (VertexWelder (1 / 2 ^ 22) (nat \<lceil>4 * real (length ts) / 64\<rceil>)) ts = Inr (faces, vw, nw) \<and>
    write_all depth s ts maxt minw faces (vertices vw) (vertices nw) = Inr s'"
  using assms unfolding pack_def
  by (auto split: if_splits sum.splits prod.splits)


section \<open>The header that pack writes\<close>

lemma length_Header_bytes: "length (Header_bytes e h) = 56"
  by (simp add: Header_bytes_def Vector_bytes_def)

lemma written_seek_0: "written (stream_seek s 0) = []"
  by (simp add: written_def stream_seek_def)

lemma endian_seek: "endian (stream_seek s p) = endian s"
  by (simp add: stream_seek_def)

lemma write_all_Inr:
  assumes "write_all depth s ts maxt minw faces vs ns = Inr s'"
  shows "\<exists>t cshift yshift ylog.
    Octree depth ts maxt minw = Inr t \<and>
    shift_of (base_width t) = Inr cshift \<and> shift_of (nx t) = Inr yshift \<and>
    shift_of (ny t) = Inr ylog \<and>
    written s' = Header_bytes (endian s)
      \<lparr>vertex_offset = int (pos s) + 56,
       normal_offset = int (pos s) + 56 + 12 * int (length vs),
       face_offset = int (pos s) + 56 + 12 * int (length vs) + 12 * int (length ns) - 16,
       octree_offset = int (pos s) + 56 + 12 * int (length vs) + 12 * int (length ns) +
         16 * int (length faces),
       unknown0 = 40, header_base = base t,
       x_mask = NOT (width_x t - 1) AND 0xFFFFFFFF,
       y_mask = NOT (width_y t - 1) AND 0xFFFFFFFF,
       z_mask = NOT (width_z t - 1) AND 0xFFFFFFFF,
       coordinate_shift = cshift, y_shift = yshift, z_shift = yshift + ylog\<rparr>"
proof -
  let ?s0 = "stream_write s (replicate Header_sizeof (B 0))"
  from assms obtain s1 s2 s3 t s4 where
    s1: "pack_all Vector_pack ?s0 vs = Inr s1"
    and s2: "pack_all Vector_pack s1 ns = Inr s2"
    and s3: "pack_all Face_pack s2 faces = Inr s3"
    and t: "Octree depth ts maxt minw = Inr t"
    and s4: "Octree_pack s3 t = Inr s4"
    and h: "write_header s4 t (int (stream_tell ?s0)) (int (stream_tell s1))
              (int (stream_tell s2) - int Face_sizeof) (int (stream_tell s3)) = Inr s'"
    unfolding write_all_def Let_def by (auto split: sum.splits)
  have v: "endian b = endian a \<and> pos b = pos a + 12 * length xs"
    if "pack_all Vector_pack a xs = Inr b" for a b xs
    using pack_all_pos [OF that, of 12] Vector_pack_written by blast
  have f: "endian b = endian a \<and> pos b = pos a + 16 * length xs"
    if "pack_all Face_pack a xs = Inr b" for a b xs
    using pack_all_pos [OF that, of 16] Face_pack_written by blast
  have p0: "pos ?s0 = pos s + 56" "endian ?s0 = endian s"
    by (simp_all add: Header_sizeof_eq)
  from v [OF s1] p0 have p1: "pos s1 = pos s + 56 + 12 * length vs" "endian s1 = endian s"
    by simp_all
  from v [OF s2] p1 have p2: "pos s2 = pos s + 56 + 12 * length vs + 12 * length ns"
    "endian s2 = endian s"
    by simp_all
  from f [OF s3] p2 have
    p3: "pos s3 = pos s + 56 + 12 * length vs + 12 * length ns + 16 * length faces"
    "endian s3 = endian s"
    by simp_all
  from Octree_pack_endian [OF s4] p3 have e4: "endian s4 = endian s" by simp
  from h obtain cshift yshift ylog where
    sh: "shift_of (base_width t) = Inr cshift" "shift_of (nx t) = Inr yshift"
      "shift_of (ny t) = Inr ylog"
    and hp: "Header_pack (stream_seek s4 0)
            \<lparr>vertex_offset = int (stream_tell ?s0), normal_offset = int (stream_tell s1),
             face_offset = int (stream_tell s2) - int Face_sizeof,
             octree_offset = int (stream_tell s3), unknown0 = 40, header_base = base t,
             x_mask = NOT (width_x t - 1) AND 0xFFFFFFFF,
             y_mask = NOT (width_y t - 1) AND 0xFFFFFFFF,
             z_mask = NOT (width_z t - 1) AND 0xFFFFFFFF,
             coordinate_shift = cshift, y_shift = yshift, z_shift = yshift + ylog\<rparr> = Inr s'"
    unfolding write_header_def by (auto split: sum.splits)
  from Header_pack_written [OF hp] e4
  have "written s' = Header_bytes (endian s)
            \<lparr>vertex_offset = int (stream_tell ?s0), normal_offset = int (stream_tell s1),
             face_offset = int (stream_tell s2) - int Face_sizeof,
             octree_offset = int (stream_tell s3), unknown0 = 40, header_base = base t,
             x_mask = NOT (width_x t - 1) AND 0xFFFFFFFF,
             y_mask = NOT (width_y t - 1) AND 0xFFFFFFFF,
             z_mask = NOT (width_z t - 1) AND 0xFFFFFFFF,
             coordinate_shift = cshift, y_shift = yshift, z_shift = yshift + ylog\<rparr>"
    by (simp add: written_seek_0 endian_seek)
  with t sh show ?thesis
    by (simp add: stream_tell_def p0 p1 p2 p3 Face_sizeof_eq Header_sizeof_eq)
qed

text \<open>
  Claim C2, as stated, fails: the header structure has twelve fields of 4 bytes and a
  vector of 12 bytes, 56 bytes in all, not 60.
\<close>

theorem Header_sizeof_is_not_60: "Header_sizeof \<noteq> 60"
  by (simp add: Header_sizeof_eq)

text \<open>
  Claim C2, amended: the KCL header is exactly 56 bytes long.  \<open>pack\<close> reserves
  \<open>Header.sizeof() = 56\<close> zero bytes where it starts, so that the vertex table begins 56
  bytes further, and a successful \<open>pack\<close> ends by writing the 56 bytes of the header at
  offset 0, which leaves the stream at position 56.
\<close>

theorem pack_header_is_56_bytes:
  assumes "pack depth s ts maxt minw = Inr s'"
  shows "Header_sizeof = 56 \<and> stream_tell s' = 56 \<and>
    (\<exists>h. written s' = Header_bytes (endian s) h \<and> length (Header_bytes (endian s) h) = 56 \<and>
         vertex_offset h = int (stream_tell s) + 56)"
proof -
  from pack_Inr [OF assms] obtain faces vw nw where
    "make_faces (VertexWelder (1 / 2) (nat \<lceil>real (length ts) / 64\<rceil>))
      (VertexWelder (1 / 2 ^ 22) (nat \<lceil>4 * real (length ts) / 64\<rceil>)) ts = Inr (faces, vw, nw)"
    and wa: "write_all depth s ts maxt minw faces (vertices vw) (vertices nw) = Inr s'"
    by blast
  from write_all_Inr [OF wa] obtain h where
    h: "written s' = Header_bytes (endian s) h" "vertex_offset h = int (pos s) + 56"
    by force
  from h(1) have "pos s' = 56"
    using length_written [of s'] by (simp add: length_Header_bytes)
  with h show ?thesis
    by (auto simp: Header_sizeof_eq stream_tell_def length_Header_bytes)
qed

theorem pack_header_is_56_bytes_witness:
  "\<exists>s'. pack (Suc 0) empty_stream [tri345] 25 8 = Inr s' \<and> stream_tell s' = 56"
proof -
  from pack_345 obtain s' where s': "pack (Suc 0) empty_stream [tri345] 25 8 = Inr s'" ..
  from pack_header_is_56_bytes [OF s'] s' show ?thesis by blast
qed





end
